theory Spec2Isabelle
  imports Main "HOL-Library.AList"
begin

section \<open>Values, schema nodes and exceptions\<close>

text \<open>
  The module \<^verbatim>\<open>altair/vegalite/v2/api.py\<close> works on Python values: strings, numbers,
  dictionaries with string keys, lists, the sentinel \<^verbatim>\<open>Undefined\<close>, and instances of
  \<^verbatim>\<open>core.SchemaBase\<close> (schema nodes). A schema node is its class name together with its
  \<^verbatim>\<open>_kwds\<close> dictionary, which is what \<^verbatim>\<open>getattr\<close>, \<^verbatim>\<open>setattr\<close> and indexing on a node
  read and write. A dictionary is an association list in insertion order, so that
  \<^verbatim>\<open>d[k] = v\<close> is \<open>AList.update k v d\<close>. The generated schema classes do not inherit from
  one another, so \<^verbatim>\<open>isinstance(x, core.C)\<close> is a test of the class name.

  A pandas DataFrame is not a value of this type: it only occurs as the \<^verbatim>\<open>data\<close> attribute of
  a chart, which the serialization model below keeps in a slot of its own.
\<close>

datatype val =
    Undefined
  | VNone
  | VBool bool
  | VNum int
  | VStr string
  | VList "val list"
  | VDict "(string \<times> val) list"
  | VNode string "(string \<times> val) list"

type_synonym dict = "(string \<times> val) list"

text \<open>Python exceptions raised by the module or by the capabilities it calls.\<close>

datatype exn =
    ValueError string
  | NotImplementedError string
  | AttributeError
  | TypeError
  | AssertionError
  | ValidationError string
  | OtherError string

text \<open>\<^verbatim>\<open>d.get(k, default)\<close> and \<^verbatim>\<open>d.update(other)\<close> on dictionaries.\<close>

definition dict_get :: "dict \<Rightarrow> string \<Rightarrow> val \<Rightarrow> val" where
  "dict_get d k dflt = (case map_of d k of None \<Rightarrow> dflt | Some v \<Rightarrow> v)"

definition dict_update :: "dict \<Rightarrow> dict \<Rightarrow> dict" where
  "dict_update d other = fold (\<lambda>(k, v). AList.update k v) other d"

definition keys :: "dict \<Rightarrow> string set" where
  "keys d = fst ` set d"

section \<open>Selection algebra\<close>

text \<open>
  \<^verbatim>\<open>SelectionMapping._get_name\<close>: the single name of the mapping; any other number of names
  (none as well as two or more) raises the \<^verbatim>\<open>ValueError\<close>.
\<close>

definition more_than_one_name :: string where
  "more_than_one_name = ''Selection Mapping has more than one name''"

fun get_name :: "dict \<Rightarrow> exn + string" where
  "get_name [(name, _)] = Inr name"
| "get_name _ = Inl (ValueError more_than_one_name)"

text \<open>\<^verbatim>\<open>isinstance(other, SelectionMapping)\<close> followed by \<^verbatim>\<open>other = other._get_name()\<close>.\<close>

fun operand_name :: "val \<Rightarrow> exn + val" where
  "operand_name (VNode cls kw) =
     (if cls = ''SelectionMapping''
      then (case get_name kw of Inl e \<Rightarrow> Inl e | Inr n \<Rightarrow> Inr (VStr n))
      else Inr (VNode cls kw))"
| "operand_name other = Inr other"

text \<open>
  \<^verbatim>\<open>__invert__\<close>, \<^verbatim>\<open>__and__\<close> and \<^verbatim>\<open>__or__\<close> of a SelectionMapping whose \<^verbatim>\<open>_kwds\<close> is the
  first argument. In \<^verbatim>\<open>__and__\<close> and \<^verbatim>\<open>__or__\<close> the name of \<^verbatim>\<open>other\<close> is taken first, the
  name of \<^verbatim>\<open>self\<close> second. Both build a \<^verbatim>\<open>core.SelectionAnd\<close>, as the source has it.
\<close>

definition selection_invert :: "dict \<Rightarrow> exn + val" where
  "selection_invert self =
     (case get_name self of
        Inl e \<Rightarrow> Inl e
      | Inr n \<Rightarrow> Inr (VNode ''SelectionNot'' [(''not'', VStr n)]))"

definition selection_and :: "dict \<Rightarrow> val \<Rightarrow> exn + val" where
  "selection_and self other =
     (case operand_name other of
        Inl e \<Rightarrow> Inl e
      | Inr other' \<Rightarrow>
          (case get_name self of
             Inl e \<Rightarrow> Inl e
           | Inr n \<Rightarrow> Inr (VNode ''SelectionAnd'' [(''and'', VList [VStr n, other'])])))"

definition selection_or :: "dict \<Rightarrow> val \<Rightarrow> exn + val" where
  "selection_or self other =
     (case operand_name other of
        Inl e \<Rightarrow> Inl e
      | Inr other' \<Rightarrow>
          (case get_name self of
             Inl e \<Rightarrow> Inl e
           | Inr n \<Rightarrow> Inr (VNode ''SelectionAnd'' [(''or'', VList [VStr n, other'])])))"

section \<open>The repeat helper\<close>

text \<open>
  \<^verbatim>\<open>repeat(repeater)\<close>: the assertion \<^verbatim>\<open>repeater in ['row', 'column']\<close> compares by equality,
  so only the two strings pass; then the \<^verbatim>\<open>RepeatRef\<close> node is built.
\<close>

definition repeat :: "val \<Rightarrow> exn + val" where
  "repeat repeater =
     (if repeater \<in> set [VStr ''row'', VStr ''column'']
      then Inr (VNode ''RepeatRef'' [(''repeat'', repeater)])
      else Inl AssertionError)"

section \<open>Condition builder\<close>

text \<open>
  \<^verbatim>\<open>condition(predicate, if_true, if_false, **kwargs)\<close>. The conversion of a node to a plain
  mapping (\<^verbatim>\<open>SchemaBase.to_dict\<close>, which validates and may raise) belongs to the schema object
  model and is the parameter \<open>node_to_dict\<close>.

  First the predicate is normalised (the message of the \<^verbatim>\<open>NotImplementedError\<close> also carries
  the type of the predicate, left out here).
\<close>

definition selection_predicates :: "string list" where
  "selection_predicates =
     [''SelectionNot'', ''SelectionOr'', ''SelectionAnd'', ''SelectionOperand'']"

definition test_predicates :: "string list" where
  "test_predicates =
     [''Predicate'', ''LogicalOperandPredicate'', ''LogicalNotPredicate'',
      ''LogicalOrPredicate'', ''LogicalAndPredicate'']"

fun predicate_condition :: "val \<Rightarrow> exn + dict" where
  "predicate_condition (VNode cls kw) =
     (if cls = ''SelectionMapping''
      then (case get_name kw of
              Inl e \<Rightarrow> Inl e
            | Inr n \<Rightarrow> Inr [(''selection'', VStr n)])
      else if cls \<in> set selection_predicates then Inr [(''selection'', VNode cls kw)]
      else if cls \<in> set test_predicates then Inr [(''test'', VNode cls kw)]
      else Inl (NotImplementedError ''condition predicate of type''))"
| "predicate_condition (VStr s) = Inr [(''test'', VStr s)]"
| "predicate_condition (VDict d) = Inr d"
| "predicate_condition _ = Inl (NotImplementedError ''condition predicate of type'')"

text \<open>
  The mapping handed to \<^verbatim>\<open>condition.update\<close>: a node is converted, a string becomes
  \<^verbatim>\<open>{'field': if_true}\<close> updated with the keyword arguments, a mapping is taken as it is.
  \<^verbatim>\<open>dict.update\<close> raises \<^verbatim>\<open>TypeError\<close> on a value that is not iterable; a list, which it would
  accept only as a sequence of key-value pairs, is treated the same way.
\<close>

fun true_attrs :: "(val \<Rightarrow> exn + dict) \<Rightarrow> val \<Rightarrow> dict \<Rightarrow> exn + dict" where
  "true_attrs node_to_dict (VNode cls kw) kwargs = node_to_dict (VNode cls kw)"
| "true_attrs node_to_dict (VStr s) kwargs = Inr (dict_update [(''field'', VStr s)] kwargs)"
| "true_attrs node_to_dict (VDict d) kwargs = Inr d"
| "true_attrs node_to_dict _ kwargs = Inl TypeError"

text \<open>
  The result: a node is copied and its \<^verbatim>\<open>condition\<close> attribute set; a string gives
  \<^verbatim>\<open>dict(condition=condition, field=if_false)\<close> updated with the keyword arguments; anything
  else goes through \<^verbatim>\<open>dict(condition=condition, **if_false)\<close>, which raises \<^verbatim>\<open>TypeError\<close>
  when \<^verbatim>\<open>if_false\<close> is not a mapping and also when it has a key \<^verbatim>\<open>condition\<close> of its own
  (a keyword argument given twice).
\<close>

fun false_branch :: "dict \<Rightarrow> val \<Rightarrow> dict \<Rightarrow> exn + val" where
  "false_branch cond (VNode cls kw) kwargs =
     Inr (VNode cls (AList.update ''condition'' (VDict cond) kw))"
| "false_branch cond (VStr s) kwargs =
     Inr (VDict (dict_update [(''condition'', VDict cond), (''field'', VStr s)] kwargs))"
| "false_branch cond (VDict d) kwargs =
     (if ''condition'' \<in> keys d then Inl TypeError
      else Inr (VDict ((''condition'', VDict cond) # d)))"
| "false_branch cond _ kwargs = Inl TypeError"

definition condition ::
  "(val \<Rightarrow> exn + dict) \<Rightarrow> val \<Rightarrow> val \<Rightarrow> val \<Rightarrow> dict \<Rightarrow> exn + val" where
  "condition node_to_dict predicate if_true if_false kwargs =
     (case predicate_condition predicate of
        Inl e \<Rightarrow> Inl e
      | Inr cond \<Rightarrow>
          (case true_attrs node_to_dict if_true kwargs of
             Inl e \<Rightarrow> Inl e
           | Inr t \<Rightarrow> false_branch (dict_update cond t) if_false kwargs))"

section \<open>Channel resolution in encode\<close>
















section \<open>Chart variants and the check of sub-specifications\<close>

text \<open>
  \<^verbatim>\<open>_check_if_valid_subspec(spec, classname)\<close>: for each of the four attribute names, in this
  order, the value is read with \<^verbatim>\<open>getattr(spec, attr, Undefined)\<close> on a node and with
  \<^verbatim>\<open>spec.get(attr, Undefined)\<close> otherwise (an \<^verbatim>\<open>AttributeError\<close> on a value that has no
  \<^verbatim>\<open>get\<close>); the first value that is not \<^verbatim>\<open>Undefined\<close> raises the \<^verbatim>\<open>ValueError\<close>.
\<close>

definition top_level_only :: "string list" where
  "top_level_only = [''autosize'', ''background'', ''config'', ''padding'']"

definition subspec_error :: "string \<Rightarrow> string \<Rightarrow> string" where
  "subspec_error attr classname =
     ''Objects with '' @ [CHR 0x22] @ attr @ [CHR 0x22] @ '' cannot be used within '' @
     classname @ ''. Consider defining the '' @ attr @ '' attribute in the '' @ classname @
     '' object instead.''"

fun attr_or_undefined :: "val \<Rightarrow> string \<Rightarrow> exn + val" where
  "attr_or_undefined (VNode cls kw) attr = Inr (dict_get kw attr Undefined)"
| "attr_or_undefined (VDict d) attr = Inr (dict_get d attr Undefined)"
| "attr_or_undefined other attr = Inl AttributeError"

fun check_attrs :: "val \<Rightarrow> string \<Rightarrow> string list \<Rightarrow> exn + unit" where
  "check_attrs spec classname [] = Inr ()"
| "check_attrs spec classname (attr # rest) =
     (case attr_or_undefined spec attr of
        Inl e \<Rightarrow> Inl e
      | Inr v \<Rightarrow>
          (if v \<noteq> Undefined then Inl (ValueError (subspec_error attr classname))
           else check_attrs spec classname rest))"

definition check_if_valid_subspec :: "val \<Rightarrow> string \<Rightarrow> exn + unit" where
  "check_if_valid_subspec spec classname = check_attrs spec classname top_level_only"

text \<open>The loop \<^verbatim>\<open>for spec in layer: _check_if_valid_subspec(spec, classname)\<close>.\<close>

fun check_all :: "val list \<Rightarrow> string \<Rightarrow> exn + unit" where
  "check_all [] classname = Inr ()"
| "check_all (spec # specs) classname =
     (case check_if_valid_subspec spec classname of
        Inl e \<Rightarrow> Inl e
      | Inr u \<Rightarrow> check_all specs classname)"

text \<open>
  The constructors. The chart classes are not validated at instantiation
  (\<^verbatim>\<open>_class_is_valid_at_instantiation = False\<close>), so after the check the node is built from
  the children and the remaining keyword arguments.
\<close>

definition LayerChart :: "val list \<Rightarrow> dict \<Rightarrow> exn + val" where
  "LayerChart layer kwargs =
     (case check_all layer ''LayerChart'' of
        Inl e \<Rightarrow> Inl e
      | Inr u \<Rightarrow> Inr (VNode ''LayerChart'' ((''layer'', VList layer) # kwargs)))"

definition HConcatChart :: "val list \<Rightarrow> dict \<Rightarrow> exn + val" where
  "HConcatChart hconcat kwargs =
     (case check_all hconcat ''HConcatChart'' of
        Inl e \<Rightarrow> Inl e
      | Inr u \<Rightarrow> Inr (VNode ''HConcatChart'' ((''hconcat'', VList hconcat) # kwargs)))"

definition VConcatChart :: "val list \<Rightarrow> dict \<Rightarrow> exn + val" where
  "VConcatChart vconcat kwargs =
     (case check_all vconcat ''VConcatChart'' of
        Inl e \<Rightarrow> Inl e
      | Inr u \<Rightarrow> Inr (VNode ''VConcatChart'' ((''vconcat'', VList vconcat) # kwargs)))"

definition RepeatChart :: "val \<Rightarrow> val \<Rightarrow> val \<Rightarrow> dict \<Rightarrow> exn + val" where
  "RepeatChart spec data repeat_arg kwargs =
     (case check_if_valid_subspec spec ''RepeatChart'' of
        Inl e \<Rightarrow> Inl e
      | Inr u \<Rightarrow>
          Inr (VNode ''RepeatChart''
                 ([(''spec'', spec), (''data'', data), (''repeat'', repeat_arg)] @ kwargs)))"

text \<open>
  \<^verbatim>\<open>self.layer.append(other)\<close> and its siblings: the attribute of the node has to be a list.
  The in-place operators (\<^verbatim>\<open>__iadd__\<close>, \<^verbatim>\<open>__ior__\<close>, \<^verbatim>\<open>__iand__\<close>) return the receiver after
  the append; \<^verbatim>\<open>__add__\<close>, \<^verbatim>\<open>__or__\<close> and \<^verbatim>\<open>__and__\<close> of the variants append to a copy of the
  receiver and return the copy, which is the same node value.
\<close>

fun append_subspec :: "string \<Rightarrow> val \<Rightarrow> val \<Rightarrow> exn + val" where
  "append_subspec attr (VNode cls kw) other =
     (case map_of kw attr of
        Some (VList xs) \<Rightarrow> Inr (VNode cls (AList.update attr (VList (xs @ [other])) kw))
      | _ \<Rightarrow> Inl AttributeError)"
| "append_subspec attr self other = Inl AttributeError"

definition LayerChart_iadd :: "val \<Rightarrow> val \<Rightarrow> exn + val" where
  "LayerChart_iadd self other =
     (case check_if_valid_subspec other ''LayerChart'' of
        Inl e \<Rightarrow> Inl e
      | Inr u \<Rightarrow> append_subspec ''layer'' self other)"

definition LayerChart_add :: "val \<Rightarrow> val \<Rightarrow> exn + val" where
  "LayerChart_add self other =
     (case check_if_valid_subspec other ''LayerChart'' of
        Inl e \<Rightarrow> Inl e
      | Inr u \<Rightarrow> append_subspec ''layer'' self other)"

definition HConcatChart_ior :: "val \<Rightarrow> val \<Rightarrow> exn + val" where
  "HConcatChart_ior self other =
     (case check_if_valid_subspec other ''HConcatChart'' of
        Inl e \<Rightarrow> Inl e
      | Inr u \<Rightarrow> append_subspec ''hconcat'' self other)"

definition HConcatChart_or :: "val \<Rightarrow> val \<Rightarrow> exn + val" where
  "HConcatChart_or self other =
     (case check_if_valid_subspec other ''HConcatChart'' of
        Inl e \<Rightarrow> Inl e
      | Inr u \<Rightarrow> append_subspec ''hconcat'' self other)"

definition VConcatChart_iand :: "val \<Rightarrow> val \<Rightarrow> exn + val" where
  "VConcatChart_iand self other =
     (case check_if_valid_subspec other ''VConcatChart'' of
        Inl e \<Rightarrow> Inl e
      | Inr u \<Rightarrow> append_subspec ''vconcat'' self other)"

definition VConcatChart_and :: "val \<Rightarrow> val \<Rightarrow> exn + val" where
  "VConcatChart_and self other =
     (case check_if_valid_subspec other ''VConcatChart'' of
        Inl e \<Rightarrow> Inl e
      | Inr u \<Rightarrow> append_subspec ''vconcat'' self other)"

text \<open>
  The operators of \<^verbatim>\<open>TopLevelMixin\<close> (\<^verbatim>\<open>__add__\<close>, \<^verbatim>\<open>__and__\<close>, \<^verbatim>\<open>__or__\<close>) and its method
  \<^verbatim>\<open>repeat\<close>, which go through the constructors.
\<close>

definition chart_add :: "val \<Rightarrow> val \<Rightarrow> exn + val" where
  "chart_add self other = LayerChart [self, other] []"

definition chart_and :: "val \<Rightarrow> val \<Rightarrow> exn + val" where
  "chart_and self other = VConcatChart [self, other] []"

definition chart_or :: "val \<Rightarrow> val \<Rightarrow> exn + val" where
  "chart_or self other = HConcatChart [self, other] []"

definition chart_repeat :: "val \<Rightarrow> val \<Rightarrow> val \<Rightarrow> dict \<Rightarrow> exn + val" where
  "chart_repeat self row column kwargs =
     RepeatChart self Undefined (VNode ''Repeat'' [(''row'', row), (''column'', column)]) kwargs"

section \<open>Serialization: \<^verbatim>\<open>TopLevelMixin.to_dict\<close>\<close>

text \<open>
  A chart object has its \<^verbatim>\<open>data\<close> attribute, which may be a pandas DataFrame (an opaque
  handle here), and its other attributes. Chart objects live in a store, addressed by their
  position: \<^verbatim>\<open>self.copy()\<close> allocates a new object and \<^verbatim>\<open>_prepare_data\<close> assigns to the
  \<^verbatim>\<open>data\<close> attribute of the object it is called on. The store also records, in order, the
  DataFrames handed to the data transformer pipeline and the calls of the conversion of the
  schema object model (\<^verbatim>\<open>super(TopLevelMixin, copy).to_dict(*args, **kwargs)\<close>) with their
  arguments.
\<close>

datatype data_attr = Frame nat | Data val

record chart =
  ch_cls :: string
  ch_data :: data_attr
  ch_attrs :: dict

text \<open>
  The dictionary \<^verbatim>\<open>context\<close>: its entry \<^verbatim>\<open>'data'\<close>, which can hold a DataFrame, and its
  other entries. The keyword arguments of \<^verbatim>\<open>to_dict\<close>: \<^verbatim>\<open>validate\<close>, \<^verbatim>\<open>context\<close> and the
  rest.
\<close>

record ctx =
  ctx_data :: "data_attr option"
  ctx_entries :: dict

record kwargs =
  kw_validate :: "val option"
  kw_context :: "ctx option"
  kw_rest :: dict

record world =
  objs :: "chart list"
  piped :: "nat list"
  converted :: "(val list \<times> kwargs) list"

definition SCHEMA_URL :: string where
  "SCHEMA_URL = ''https://vega.github.io/schema/vega-lite/v2.json''"

definition default_spec_values :: dict where
  "default_spec_values =
     [(''config'', VDict [(''view'', VDict [(''width'', VNum 400), (''height'', VNum 300)])])]"

text \<open>
  \<^verbatim>\<open>_prepare_data\<close> on the object at address \<open>a\<close>. A mapping or one of the four data node
  classes is kept; a DataFrame goes through the pipeline \<open>transform\<close>
  (\<^verbatim>\<open>pipe(self.data, data_transformers.get())\<close>, which may raise) and the result is assigned;
  a string is wrapped as \<^verbatim>\<open>core.UrlData\<close>; anything else is kept.
\<close>

definition data_classes :: "string list" where
  "data_classes = [''Data'', ''InlineData'', ''UrlData'', ''NamedData'']"

definition set_data :: "nat \<Rightarrow> data_attr \<Rightarrow> world \<Rightarrow> world" where
  "set_data a d w = w\<lparr>objs := (objs w)[a := (objs w ! a)\<lparr>ch_data := d\<rparr>]\<rparr>"

fun prepare_data :: "(nat \<Rightarrow> exn + val) \<Rightarrow> nat \<Rightarrow> data_attr \<Rightarrow> world \<Rightarrow> (exn + unit) \<times> world" where
  "prepare_data transform a (Data (VDict d)) w = (Inr (), w)"
| "prepare_data transform a (Data (VNode cls kw)) w = (Inr (), w)"
| "prepare_data transform a (Frame f) w =
     (case transform f of
        Inl e \<Rightarrow> (Inl e, w\<lparr>piped := piped w @ [f]\<rparr>)
      | Inr v \<Rightarrow> (Inr (), set_data a (Data v) (w\<lparr>piped := piped w @ [f]\<rparr>)))"
| "prepare_data transform a (Data (VStr s)) w =
     (Inr (), set_data a (Data (VNode ''UrlData'' [(''url'', VStr s)])) w)"
| "prepare_data transform a (Data other) w = (Inr (), w)"

text \<open>Python's truth value of a value (\<^verbatim>\<open>if is_top_level:\<close>).\<close>

fun truthy :: "val \<Rightarrow> bool" where
  "truthy Undefined = True"
| "truthy VNone = False"
| "truthy (VBool b) = b"
| "truthy (VNum n) = (n \<noteq> 0)"
| "truthy (VStr s) = (s \<noteq> [])"
| "truthy (VList xs) = (xs \<noteq> [])"
| "truthy (VDict d) = (d \<noteq> [])"
| "truthy (VNode cls kw) = True"

text \<open>
  Modelled from the spec: \<^verbatim>\<open>update_nested(original, update, copy=True)\<close> of
  \<^verbatim>\<open>altair.utils\<close>, which this module imports and which is not part of it. The spec's words
  are that the default values are deep-merged underneath, not overriding, whatever the caller
  set: every entry of \<open>update\<close> is written into \<open>original\<close>, and where both sides hold a
  mapping under the same key the two mappings are merged in the same way.
\<close>

function (sequential) update_nested :: "dict \<Rightarrow> dict \<Rightarrow> dict" where
  "update_nested original [] = original"
| "update_nested original ((key, VDict upd) # rest) =
     update_nested
       (case dict_get original key (VDict []) of
          VDict orig_val \<Rightarrow> AList.update key (VDict (update_nested orig_val upd)) original
        | _ \<Rightarrow> AList.update key (VDict upd) original)
       rest"
| "update_nested original ((key, v) # rest) =
     update_nested (AList.update key v original) rest"
  by pat_completeness auto
termination
  by (relation "measure (\<lambda>(original, update). size_list (size_prod (\<lambda>k. 0) size) update)")
     auto

text \<open>
  A Python dictionary holds each key once. \<open>distinct_keys\<close> says so of a mapping and of the
  mappings nested in it as values, which are the ones that \<^verbatim>\<open>update_nested\<close> walks into.
\<close>

fun distinct_keys :: "val \<Rightarrow> bool" where
  "distinct_keys (VDict d) = (distinct (map fst d) \<and> list_all (\<lambda>(k, v). distinct_keys v) d)"
| "distinct_keys other = True"

text \<open>
  The last step of \<^verbatim>\<open>to_dict\<close>: at top level the \<^verbatim>\<open>$schema\<close> entry is added when missing
  and the document is merged onto the default values.
\<close>

definition finalize :: "val \<Rightarrow> dict \<Rightarrow> dict" where
  "finalize is_top_level dct =
     (if truthy is_top_level
      then (let dct1 = (if ''$schema'' \<in> keys dct then dct
                        else AList.update ''$schema'' (VStr SCHEMA_URL) dct)
            in if default_spec_values \<noteq> [] then update_nested default_spec_values dct1
               else dct1)
      else dct)"

text \<open>One call of the conversion of the schema object model on the object at \<open>a\<close>.\<close>

definition convert ::
  "(val list \<Rightarrow> kwargs \<Rightarrow> chart \<Rightarrow> exn + dict) \<Rightarrow> val list \<Rightarrow> kwargs \<Rightarrow> nat \<Rightarrow> world \<Rightarrow>
     (exn + dict) \<times> world" where
  "convert base_to_dict args kw a w =
     (base_to_dict args kw (objs w ! a), w\<lparr>converted := converted w @ [(args, kw)]\<rparr>)"

text \<open>
  The context that \<^verbatim>\<open>to_dict\<close> passes on: a copy of the caller's, with \<^verbatim>\<open>top_level\<close> set to
  \<^verbatim>\<open>False\<close> and, unless the chart has no data, \<^verbatim>\<open>data\<close> set to the data as it was before
  \<^verbatim>\<open>_prepare_data\<close>.
\<close>

definition caller_context :: "kwargs \<Rightarrow> ctx" where
  "caller_context kw =
     (case kw_context kw of
        None \<Rightarrow> \<lparr>ctx_data = None, ctx_entries = []\<rparr>
      | Some c \<Rightarrow> c)"

definition is_top_level :: "kwargs \<Rightarrow> val" where
  "is_top_level kw = dict_get (ctx_entries (caller_context kw)) ''top_level'' (VBool True)"

definition inner_kwargs :: "kwargs \<Rightarrow> data_attr \<Rightarrow> kwargs" where
  "inner_kwargs kw original_data =
     (let context = caller_context kw;
          context1 = context\<lparr>ctx_entries :=
                       AList.update ''top_level'' (VBool False) (ctx_entries context)\<rparr>;
          context2 = (if original_data \<noteq> Data Undefined
                      then context1\<lparr>ctx_data := Some original_data\<rparr> else context1)
      in kw\<lparr>kw_context := Some context2\<rparr>)"

text \<open>
  \<^verbatim>\<open>to_dict\<close> of the chart object at address \<open>self\<close> (an address outside the store is not an
  object, and is answered by an error before anything happens).
\<close>

definition to_dict ::
  "(nat \<Rightarrow> exn + val) \<Rightarrow> (val list \<Rightarrow> kwargs \<Rightarrow> chart \<Rightarrow> exn + dict) \<Rightarrow>
     nat \<Rightarrow> val list \<Rightarrow> kwargs \<Rightarrow> world \<Rightarrow> (exn + dict) \<times> world" where
  "to_dict transform base_to_dict self args kw w =
     (if length (objs w) \<le> self then (Inl (OtherError ''no such object''), w)
      else
        (let copy = length (objs w);
             w1 = w\<lparr>objs := objs w @ [objs w ! self]\<rparr>;
             original_data = ch_data (objs w1 ! copy)
         in case prepare_data transform copy (ch_data (objs w1 ! copy)) w1 of
              (Inl e, w2) \<Rightarrow> (Inl e, w2)
            | (Inr u, w2) \<Rightarrow>
                (let kw1 = inner_kwargs kw original_data
                 in case convert base_to_dict args kw1 copy w2 of
                      (Inl (ValidationError m), w3) \<Rightarrow>
                        (case convert base_to_dict args
                                (kw1\<lparr>kw_validate := Some (VStr ''deep'')\<rparr>) copy w3 of
                           (Inl e, w4) \<Rightarrow> (Inl e, w4)
                         | (Inr dct, w4) \<Rightarrow> (Inr (finalize (is_top_level kw) dct), w4))
                    | (Inl e, w3) \<Rightarrow> (Inl e, w3)
                    | (Inr dct, w3) \<Rightarrow> (Inr (finalize (is_top_level kw) dct), w3))))"

section \<open>Instances of the capabilities\<close>

text \<open>
  The theorems below hold for every behaviour of the capabilities that the module takes from
  the rest of the repository. To evaluate the module on concrete inputs, each capability gets
  one instance here, written from what the spec says about it.
\<close>

text \<open>
  Modelled from the spec: the conversion of a node to its plain-mapping form
  (\<^verbatim>\<open>SchemaBase.to_dict\<close> of the schema object model, which is not part of this module), for
  a node whose fields hold plain values. A field that holds the unset marker is omitted from
  the document; no schema is consulted, so no validation error arises.
\<close>

definition plain_to_dict :: "val \<Rightarrow> exn + dict" where
  "plain_to_dict v =
     (case v of
        VNode cls kw \<Rightarrow> Inr (filter (\<lambda>(k, x). x \<noteq> Undefined) kw)
      | _ \<Rightarrow> Inl AttributeError)"






text \<open>
  Modelled from the spec: the data transformation pipeline
  (\<^verbatim>\<open>pipe(data, data_transformers.get())\<close> of the data module, which is not part of this
  module), the spec's collaborator \<^verbatim>\<open>transform(tabularValue) -> DataReference\<close>. This
  instance turns the DataFrame with handle \<open>f\<close> into an inline data node that records the
  handle in place of the rows.
\<close>

definition frame_to_data :: "nat \<Rightarrow> exn + val" where
  "frame_to_data f = Inr (VNode ''InlineData'' [(''values'', VList [VNum (int f)])])"

text \<open>
  Modelled from the spec: the conversion of the schema object model
  (\<^verbatim>\<open>SchemaBase.to_dict\<close>, which is not part of this module) on a chart whose attributes
  hold plain values. The document has the data reference under \<^verbatim>\<open>data\<close> and the
  attributes that are set (a field that holds the unset marker is omitted). The document is
  checked unless \<^verbatim>\<open>validate\<close> is \<^verbatim>\<open>False\<close>; the one rule of the grammar schema in this
  instance is that a chart has a \<^verbatim>\<open>mark\<close>, and the deep mode names the node at fault. A
  DataFrame cannot be written into a document.
\<close>

definition chart_to_document :: "val list \<Rightarrow> kwargs \<Rightarrow> chart \<Rightarrow> exn + dict" where
  "chart_to_document args kw c =
     (case ch_data c of
        Frame f \<Rightarrow> Inl TypeError
      | Data d \<Rightarrow>
          (let doc = filter (\<lambda>(k, v). v \<noteq> Undefined)
                       ((''data'', case d of VNode cls entries \<Rightarrow> VDict entries | _ \<Rightarrow> d)
                        # ch_attrs c)
           in if kw_validate kw = Some (VBool False) \<or> ''mark'' \<in> keys doc then Inr doc
              else if kw_validate kw = Some (VStr ''deep'')
              then Inl (ValidationError (ch_cls c @ '': mark is a required property''))
              else Inl (ValidationError ''mark is a required property'')))"


section \<open>The repeat helper accepts two strings\<close>

text \<open>
  Claim C10. \<^verbatim>\<open>repeat(repeater)\<close> returns a \<^verbatim>\<open>RepeatRef\<close> node with \<^verbatim>\<open>repeat\<close> set to the
  argument for the strings \<^verbatim>\<open>'row'\<close> and \<^verbatim>\<open>'column'\<close>; for every other argument the assertion
  fails, so a \<^verbatim>\<open>RepeatRef\<close> that is returned always holds one of the two strings.
\<close>

theorem repeat_only_row_or_column:
  "repeat (VStr ''row'') = Inr (VNode ''RepeatRef'' [(''repeat'', VStr ''row'')]) \<and>
   repeat (VStr ''column'') = Inr (VNode ''RepeatRef'' [(''repeat'', VStr ''column'')]) \<and>
   (\<forall>r. r \<noteq> VStr ''row'' \<and> r \<noteq> VStr ''column'' \<longrightarrow> repeat r = Inl AssertionError) \<and>
   (\<forall>r n. repeat r = Inr n \<longrightarrow>
      (r = VStr ''row'' \<or> r = VStr ''column'') \<and> n = VNode ''RepeatRef'' [(''repeat'', r)])"
  by (auto simp: repeat_def split: if_splits)

theorem repeat_only_row_or_column_witness:
  "repeat (VStr ''facet'') = Inl AssertionError \<and> repeat (VNum 0) = Inl AssertionError \<and>
   repeat (VStr ''Row'') = Inl AssertionError"
proof -
  have a: "\<forall>r. r \<noteq> VStr ''row'' \<and> r \<noteq> VStr ''column'' \<longrightarrow> repeat r = Inl AssertionError"
    using repeat_only_row_or_column by blast
  show ?thesis using a by simp
qed

section \<open>Negation of a selection mapping\<close>

text \<open>
  The negation of a mapping with the single name \<^verbatim>\<open>brush\<close> is not the structure
  \<^verbatim>\<open>{selection: {not: brush}}\<close>: \<^verbatim>\<open>__invert__\<close> returns the \<^verbatim>\<open>SelectionNot\<close> node, which
  has no \<^verbatim>\<open>selection\<close> entry.
\<close>

theorem selection_invert_counterexample:
  "selection_invert [(''brush'', VNode ''SelectionDef'' [(''type'', VStr ''interval'')])]
     \<noteq> Inr (VDict [(''selection'', VDict [(''not'', VStr ''brush'')])])"
  by (simp add: selection_invert_def)

text \<open>
  Claim C6, as amended. The negation of a selection mapping that holds two or more names
  raises the \<^verbatim>\<open>ValueError\<close> of \<^verbatim>\<open>_get_name\<close>. The negation of a mapping that holds exactly one
  name is the \<^verbatim>\<open>SelectionNot\<close> node \<^verbatim>\<open>{not: name}\<close>; it is \<^verbatim>\<open>condition\<close> that, given this
  node as its predicate, puts it under the key \<^verbatim>\<open>selection\<close>.
\<close>

theorem selection_invert_not_node:
  "(2 \<le> length S \<longrightarrow> selection_invert S = Inl (ValueError more_than_one_name)) \<and>
   (S = [(name, d)] \<longrightarrow>
      selection_invert S = Inr (VNode ''SelectionNot'' [(''not'', VStr name)]) \<and>
      predicate_condition (VNode ''SelectionNot'' [(''not'', VStr name)])
        = Inr [(''selection'', VNode ''SelectionNot'' [(''not'', VStr name)])])"
proof (intro conjI impI)
  assume "2 \<le> length S"
  then obtain p q rest where "S = p # q # rest"
    by (cases S; cases "tl S") auto
  then show "selection_invert S = Inl (ValueError more_than_one_name)"
    by (cases p) (simp add: selection_invert_def)
next
  assume "S = [(name, d)]"
  then show "selection_invert S = Inr (VNode ''SelectionNot'' [(''not'', VStr name)])"
    by (simp add: selection_invert_def)
next
  show "predicate_condition (VNode ''SelectionNot'' [(''not'', VStr name)])
        = Inr [(''selection'', VNode ''SelectionNot'' [(''not'', VStr name)])]"
    by (simp add: selection_predicates_def)
qed

theorem selection_invert_not_node_witness:
  "selection_invert [(''brush'', VNode ''SelectionDef'' [(''type'', VStr ''interval'')]),
                     (''click'', VNode ''SelectionDef'' [(''type'', VStr ''single'')])]
     = Inl (ValueError more_than_one_name) \<and>
   selection_invert [(''brush'', VNode ''SelectionDef'' [(''type'', VStr ''interval'')])]
     = Inr (VNode ''SelectionNot'' [(''not'', VStr ''brush'')])"
  using selection_invert_not_node
          [of "[(''brush'', VNode ''SelectionDef'' [(''type'', VStr ''interval'')]),
                (''click'', VNode ''SelectionDef'' [(''type'', VStr ''single'')])]"]
        selection_invert_not_node
          [of "[(''brush'', VNode ''SelectionDef'' [(''type'', VStr ''interval'')])]"
              "''brush''" "VNode ''SelectionDef'' [(''type'', VStr ''interval'')]"]
  by simp

section \<open>Conjunction and disjunction of selection mappings\<close>

text \<open>
  Claim C7. For single-name mappings \<open>A\<close> and \<open>B\<close>, or \<open>A\<close> and a raw name, \<^verbatim>\<open>A & B\<close> is the
  \<^verbatim>\<open>SelectionAnd\<close> node over the two names. \<^verbatim>\<open>A | B\<close> is evaluated here as the source computes
  it: the node that comes out has the field \<^verbatim>\<open>or\<close> over the two names, and its class is
  \<^verbatim>\<open>SelectionAnd\<close>, not \<^verbatim>\<open>SelectionOr\<close>.
\<close>

theorem selection_or_builds_SelectionAnd:
  "selection_and [(a, d)] (VNode ''SelectionMapping'' [(b, e)])
     = Inr (VNode ''SelectionAnd'' [(''and'', VList [VStr a, VStr b])]) \<and>
   selection_and [(a, d)] (VStr b)
     = Inr (VNode ''SelectionAnd'' [(''and'', VList [VStr a, VStr b])]) \<and>
   selection_or [(a, d)] (VNode ''SelectionMapping'' [(b, e)])
     = Inr (VNode ''SelectionAnd'' [(''or'', VList [VStr a, VStr b])]) \<and>
   selection_or [(a, d)] (VStr b)
     = Inr (VNode ''SelectionAnd'' [(''or'', VList [VStr a, VStr b])])"
  by (simp add: selection_and_def selection_or_def)

section \<open>Top-level-only properties are rejected in sub-specifications\<close>

lemma check_attrs_find:
  assumes "child = VNode c kw \<or> child = VDict kw"
  shows "check_attrs child cn as =
           (case find (\<lambda>a. dict_get kw a Undefined \<noteq> Undefined) as of
              None \<Rightarrow> Inr ()
            | Some b \<Rightarrow> Inl (ValueError (subspec_error b cn)))"
  using assms by (induction as) auto

lemma check_rejects:
  assumes child: "child = VNode c kw \<or> child = VDict kw"
    and a: "a \<in> set top_level_only" "dict_get kw a Undefined \<noteq> Undefined"
  obtains b where "b \<in> set top_level_only" "dict_get kw b Undefined \<noteq> Undefined"
    "\<And>cn. check_if_valid_subspec child cn = Inl (ValueError (subspec_error b cn))"
proof -
  from a obtain b where b: "find (\<lambda>a. dict_get kw a Undefined \<noteq> Undefined) top_level_only = Some b"
    by (cases "find (\<lambda>a. dict_get kw a Undefined \<noteq> Undefined) top_level_only")
       (auto simp: find_None_iff)
  then have "b \<in> set top_level_only" "dict_get kw b Undefined \<noteq> Undefined"
    by (auto simp: find_Some_iff)
  moreover have "\<And>cn. check_if_valid_subspec child cn = Inl (ValueError (subspec_error b cn))"
    using b by (simp add: check_if_valid_subspec_def check_attrs_find [OF child])
  ultimately show thesis using that by blast
qed

lemma check_accepts:
  assumes child: "child = VNode c kw \<or> child = VDict kw"
    and none: "\<forall>a\<in>set top_level_only. dict_get kw a Undefined = Undefined"
  shows "check_if_valid_subspec child cn = Inr ()"
proof -
  have "find (\<lambda>a. dict_get kw a Undefined \<noteq> Undefined) top_level_only = None"
    using none by (simp add: find_None_iff)
  then show ?thesis
    by (simp add: check_if_valid_subspec_def check_attrs_find [OF child])
qed

lemma check_all_append:
  "check_all (pre @ child # post) cn =
     (case check_all pre cn of
        Inl e \<Rightarrow> Inl e
      | Inr u \<Rightarrow> (case check_if_valid_subspec child cn of
                    Inl e \<Rightarrow> Inl e
                  | Inr u \<Rightarrow> check_all post cn))"
  by (induction pre) (auto split: sum.splits)

lemma check_all_accepts:
  "(\<forall>x\<in>set xs. check_if_valid_subspec x cn = Inr ()) \<Longrightarrow> check_all xs cn = Inr ()"
  by (induction xs) auto

text \<open>
  Claim C5. A child specification is a node or a mapping with attributes \<open>kw\<close>; it declares a
  property when the value read for it is not \<^verbatim>\<open>Undefined\<close>. If the child declares one of
  \<^verbatim>\<open>autosize\<close>, \<^verbatim>\<open>background\<close>, \<^verbatim>\<open>config\<close>, \<^verbatim>\<open>padding\<close>, then there is a declared
  property \<open>b\<close> among the four such that the check raises the \<^verbatim>\<open>ValueError\<close> whose message
  names \<open>b\<close> and the variant, and so do the constructors of \<^verbatim>\<open>LayerChart\<close>,
  \<^verbatim>\<open>HConcatChart\<close>, \<^verbatim>\<open>VConcatChart\<close> (when the children before it pass) and
  \<^verbatim>\<open>RepeatChart\<close>, and the append and composition operators of the three list variants. If
  the child declares none of the four, the check accepts it, the constructors build the chart
  (when the other children pass too), and the operators append it to the receiver's list.
\<close>

theorem subspec_top_level_only:
  assumes child: "child = VNode c kw \<or> child = VDict kw"
  shows
    "(a \<in> set top_level_only \<and> dict_get kw a Undefined \<noteq> Undefined \<longrightarrow>
        (\<exists>b\<in>set top_level_only. dict_get kw b Undefined \<noteq> Undefined \<and>
           (\<forall>cn. check_if_valid_subspec child cn = Inl (ValueError (subspec_error b cn))) \<and>
           (check_all pre ''LayerChart'' = Inr () \<longrightarrow>
              LayerChart (pre @ child # post) kws
                = Inl (ValueError (subspec_error b ''LayerChart''))) \<and>
           (check_all pre ''HConcatChart'' = Inr () \<longrightarrow>
              HConcatChart (pre @ child # post) kws
                = Inl (ValueError (subspec_error b ''HConcatChart''))) \<and>
           (check_all pre ''VConcatChart'' = Inr () \<longrightarrow>
              VConcatChart (pre @ child # post) kws
                = Inl (ValueError (subspec_error b ''VConcatChart''))) \<and>
           RepeatChart child data rep kws = Inl (ValueError (subspec_error b ''RepeatChart'')) \<and>
           LayerChart_iadd self child = Inl (ValueError (subspec_error b ''LayerChart'')) \<and>
           LayerChart_add self child = Inl (ValueError (subspec_error b ''LayerChart'')) \<and>
           HConcatChart_ior self child = Inl (ValueError (subspec_error b ''HConcatChart'')) \<and>
           HConcatChart_or self child = Inl (ValueError (subspec_error b ''HConcatChart'')) \<and>
           VConcatChart_iand self child = Inl (ValueError (subspec_error b ''VConcatChart'')) \<and>
           VConcatChart_and self child = Inl (ValueError (subspec_error b ''VConcatChart'')))) \<and>
     ((\<forall>a\<in>set top_level_only. dict_get kw a Undefined = Undefined) \<longrightarrow>
        (\<forall>cn. check_if_valid_subspec child cn = Inr ()) \<and>
        (check_all pre ''LayerChart'' = Inr () \<and> check_all post ''LayerChart'' = Inr () \<longrightarrow>
           LayerChart (pre @ child # post) kws
             = Inr (VNode ''LayerChart'' ((''layer'', VList (pre @ child # post)) # kws))) \<and>
        (check_all pre ''HConcatChart'' = Inr () \<and> check_all post ''HConcatChart'' = Inr () \<longrightarrow>
           HConcatChart (pre @ child # post) kws
             = Inr (VNode ''HConcatChart'' ((''hconcat'', VList (pre @ child # post)) # kws))) \<and>
        (check_all pre ''VConcatChart'' = Inr () \<and> check_all post ''VConcatChart'' = Inr () \<longrightarrow>
           VConcatChart (pre @ child # post) kws
             = Inr (VNode ''VConcatChart'' ((''vconcat'', VList (pre @ child # post)) # kws))) \<and>
        RepeatChart child data rep kws
          = Inr (VNode ''RepeatChart''
                   ([(''spec'', child), (''data'', data), (''repeat'', rep)] @ kws)) \<and>
        (map_of skw ''layer'' = Some (VList xs) \<longrightarrow>
           LayerChart_iadd (VNode sc skw) child
             = Inr (VNode sc (AList.update ''layer'' (VList (xs @ [child])) skw)) \<and>
           LayerChart_add (VNode sc skw) child
             = Inr (VNode sc (AList.update ''layer'' (VList (xs @ [child])) skw))) \<and>
        (map_of skw ''hconcat'' = Some (VList xs) \<longrightarrow>
           HConcatChart_ior (VNode sc skw) child
             = Inr (VNode sc (AList.update ''hconcat'' (VList (xs @ [child])) skw)) \<and>
           HConcatChart_or (VNode sc skw) child
             = Inr (VNode sc (AList.update ''hconcat'' (VList (xs @ [child])) skw))) \<and>
        (map_of skw ''vconcat'' = Some (VList xs) \<longrightarrow>
           VConcatChart_iand (VNode sc skw) child
             = Inr (VNode sc (AList.update ''vconcat'' (VList (xs @ [child])) skw)) \<and>
           VConcatChart_and (VNode sc skw) child
             = Inr (VNode sc (AList.update ''vconcat'' (VList (xs @ [child])) skw))))"
proof (intro conjI impI)
  assume "a \<in> set top_level_only \<and> dict_get kw a Undefined \<noteq> Undefined"
  then obtain b where b: "b \<in> set top_level_only" "dict_get kw b Undefined \<noteq> Undefined"
    and rej: "\<And>cn. check_if_valid_subspec child cn = Inl (ValueError (subspec_error b cn))"
    using check_rejects [OF child] by blast
  show "\<exists>b\<in>set top_level_only. dict_get kw b Undefined \<noteq> Undefined \<and>
           (\<forall>cn. check_if_valid_subspec child cn = Inl (ValueError (subspec_error b cn))) \<and>
           (check_all pre ''LayerChart'' = Inr () \<longrightarrow>
              LayerChart (pre @ child # post) kws
                = Inl (ValueError (subspec_error b ''LayerChart''))) \<and>
           (check_all pre ''HConcatChart'' = Inr () \<longrightarrow>
              HConcatChart (pre @ child # post) kws
                = Inl (ValueError (subspec_error b ''HConcatChart''))) \<and>
           (check_all pre ''VConcatChart'' = Inr () \<longrightarrow>
              VConcatChart (pre @ child # post) kws
                = Inl (ValueError (subspec_error b ''VConcatChart''))) \<and>
           RepeatChart child data rep kws = Inl (ValueError (subspec_error b ''RepeatChart'')) \<and>
           LayerChart_iadd self child = Inl (ValueError (subspec_error b ''LayerChart'')) \<and>
           LayerChart_add self child = Inl (ValueError (subspec_error b ''LayerChart'')) \<and>
           HConcatChart_ior self child = Inl (ValueError (subspec_error b ''HConcatChart'')) \<and>
           HConcatChart_or self child = Inl (ValueError (subspec_error b ''HConcatChart'')) \<and>
           VConcatChart_iand self child = Inl (ValueError (subspec_error b ''VConcatChart'')) \<and>
           VConcatChart_and self child = Inl (ValueError (subspec_error b ''VConcatChart''))"
    using b
    by (intro bexI [of _ b])
       (simp_all add: rej check_all_append LayerChart_def HConcatChart_def VConcatChart_def
          RepeatChart_def LayerChart_iadd_def LayerChart_add_def HConcatChart_ior_def
          HConcatChart_or_def VConcatChart_iand_def VConcatChart_and_def)
next
  assume none: "\<forall>a\<in>set top_level_only. dict_get kw a Undefined = Undefined"
  have acc: "\<And>cn. check_if_valid_subspec child cn = Inr ()"
    using check_accepts [OF child none] .
  show "\<forall>cn. check_if_valid_subspec child cn = Inr ()" using acc by simp
  show "RepeatChart child data rep kws
          = Inr (VNode ''RepeatChart''
                   ([(''spec'', child), (''data'', data), (''repeat'', rep)] @ kws))"
    by (simp add: RepeatChart_def acc)
  { assume "check_all pre ''LayerChart'' = Inr () \<and> check_all post ''LayerChart'' = Inr ()"
    then show "LayerChart (pre @ child # post) kws
             = Inr (VNode ''LayerChart'' ((''layer'', VList (pre @ child # post)) # kws))"
      by (simp add: LayerChart_def check_all_append acc) }
  { assume "check_all pre ''HConcatChart'' = Inr () \<and> check_all post ''HConcatChart'' = Inr ()"
    then show "HConcatChart (pre @ child # post) kws
             = Inr (VNode ''HConcatChart'' ((''hconcat'', VList (pre @ child # post)) # kws))"
      by (simp add: HConcatChart_def check_all_append acc) }
  { assume "check_all pre ''VConcatChart'' = Inr () \<and> check_all post ''VConcatChart'' = Inr ()"
    then show "VConcatChart (pre @ child # post) kws
             = Inr (VNode ''VConcatChart'' ((''vconcat'', VList (pre @ child # post)) # kws))"
      by (simp add: VConcatChart_def check_all_append acc) }
  { assume "map_of skw ''layer'' = Some (VList xs)"
    then show "LayerChart_iadd (VNode sc skw) child
             = Inr (VNode sc (AList.update ''layer'' (VList (xs @ [child])) skw))"
      and "LayerChart_add (VNode sc skw) child
             = Inr (VNode sc (AList.update ''layer'' (VList (xs @ [child])) skw))"
      by (simp_all add: LayerChart_iadd_def LayerChart_add_def acc) }
  { assume "map_of skw ''hconcat'' = Some (VList xs)"
    then show "HConcatChart_ior (VNode sc skw) child
             = Inr (VNode sc (AList.update ''hconcat'' (VList (xs @ [child])) skw))"
      and "HConcatChart_or (VNode sc skw) child
             = Inr (VNode sc (AList.update ''hconcat'' (VList (xs @ [child])) skw))"
      by (simp_all add: HConcatChart_ior_def HConcatChart_or_def acc) }
  { assume "map_of skw ''vconcat'' = Some (VList xs)"
    then show "VConcatChart_iand (VNode sc skw) child
             = Inr (VNode sc (AList.update ''vconcat'' (VList (xs @ [child])) skw))"
      and "VConcatChart_and (VNode sc skw) child
             = Inr (VNode sc (AList.update ''vconcat'' (VList (xs @ [child])) skw))"
      by (simp_all add: VConcatChart_iand_def VConcatChart_and_def acc) }
qed


theorem subspec_top_level_only_witness:
  "(\<exists>b\<in>set top_level_only.
      dict_get [(''mark'', VStr ''point''), (''config'', VDict [])] b Undefined \<noteq> Undefined \<and>
      LayerChart [VNode ''Chart'' [(''mark'', VStr ''line'')],
                  VNode ''Chart'' [(''mark'', VStr ''point''), (''config'', VDict [])]] []
        = Inl (ValueError (subspec_error b ''LayerChart''))) \<and>
   LayerChart [VNode ''Chart'' [(''mark'', VStr ''line'')],
               VNode ''Chart'' [(''mark'', VStr ''point'')]] []
     = Inr (VNode ''LayerChart''
              [(''layer'', VList [VNode ''Chart'' [(''mark'', VStr ''line'')],
                                  VNode ''Chart'' [(''mark'', VStr ''point'')]])])"
proof -
  have line: "check_all [VNode ''Chart'' [(''mark'', VStr ''line'')]] ''LayerChart'' = Inr ()"
    by (simp add: check_if_valid_subspec_def top_level_only_def dict_get_def)
  have "(\<exists>b\<in>set top_level_only.
      dict_get [(''mark'', VStr ''point''), (''config'', VDict [])] b Undefined \<noteq> Undefined \<and>
      LayerChart ([VNode ''Chart'' [(''mark'', VStr ''line'')]] @
                  VNode ''Chart'' [(''mark'', VStr ''point''), (''config'', VDict [])] # []) []
        = Inl (ValueError (subspec_error b ''LayerChart'')))"
    using line
      subspec_top_level_only
        [where child = "VNode ''Chart'' [(''mark'', VStr ''point''), (''config'', VDict [])]"
           and c = "''Chart''" and kw = "[(''mark'', VStr ''point''), (''config'', VDict [])]"
           and a = "''config''" and pre = "[VNode ''Chart'' [(''mark'', VStr ''line'')]]"
           and post = "[]" and kws = "[]"]
    by (simp add: top_level_only_def dict_get_def)
  moreover have "LayerChart ([VNode ''Chart'' [(''mark'', VStr ''line'')]] @
               VNode ''Chart'' [(''mark'', VStr ''point'')] # []) []
     = Inr (VNode ''LayerChart''
              [(''layer'', VList ([VNode ''Chart'' [(''mark'', VStr ''line'')]] @
                                  VNode ''Chart'' [(''mark'', VStr ''point'')] # []))])"
    using line
      subspec_top_level_only
        [where child = "VNode ''Chart'' [(''mark'', VStr ''point'')]"
           and c = "''Chart''" and kw = "[(''mark'', VStr ''point'')]"
           and pre = "[VNode ''Chart'' [(''mark'', VStr ''line'')]]"
           and post = "[]" and kws = "[]"]
    by (simp add: top_level_only_def dict_get_def)
  ultimately show ?thesis by simp
qed

section \<open>Conditions on a single-name selection\<close>

lemma map_of_dict_update:
  "distinct (map fst other) \<Longrightarrow> map_of (dict_update d other) = map_of d ++ map_of other"
proof (induction other arbitrary: d)
  case Nil
  then show ?case by (simp add: dict_update_def)
next
  case (Cons p other)
  obtain k v where p: "p = (k, v)" by (cases p)
  from Cons.prems p have k: "k \<notin> fst ` set other" and dist: "distinct (map fst other)"
    by auto
  have "map_of (dict_update d (p # other)) = map_of (dict_update (AList.update k v d) other)"
    by (simp add: dict_update_def p)
  also have "\<dots> = map_of (AList.update k v d) ++ map_of other"
    using Cons.IH [OF dist] .
  also have "\<dots> = (map_of d)(k \<mapsto> v) ++ map_of other"
    by (simp add: update_conv')
  also have "\<dots> = map_of d ++ map_of (p # other)"
  proof (rule ext)
    fix x
    have "map_of other k = None" using k by (simp add: map_of_eq_None_iff)
    then show "((map_of d)(k \<mapsto> v) ++ map_of other) x = (map_of d ++ map_of (p # other)) x"
      by (cases "x = k") (auto simp: map_add_def p split: option.splits)
  qed
  finally show ?case .
qed

text \<open>
  With a mapping as \<^verbatim>\<open>if_false\<close> that has a key \<^verbatim>\<open>condition\<close> of its own,
  \<^verbatim>\<open>dict(condition=condition, **if_false)\<close> is given the keyword twice: no channel definition
  is returned.
\<close>

theorem condition_counterexample:
  "condition plain_to_dict
     (VNode ''SelectionMapping'' [(''brush'', VNode ''SelectionDef'' [(''type'', VStr ''interval'')])])
     (VDict [(''field'', VStr ''a'')])
     (VDict [(''condition'', VDict [(''test'', VStr ''datum.x > 0''), (''value'', VStr ''red'')]),
             (''value'', VStr ''grey'')])
     [] = Inl TypeError"
  by (simp add: condition_def keys_def)

text \<open>
  Claim C1, as amended. The predicate is a selection mapping with the single name \<open>name\<close>;
  \<open>t\<close> is the mapping of \<^verbatim>\<open>if_true\<close>: \<^verbatim>\<open>{field: if_true}\<close> for a string, the mapping itself,
  or the conversion of a node, when it succeeds. Then \<^verbatim>\<open>condition(predicate, if_true,
  if_false)\<close> returns one channel definition whose entry \<^verbatim>\<open>condition\<close> is
  \<^verbatim>\<open>{selection: name}\<close> updated with \<open>t\<close>, and whose other entries are those of
  \<^verbatim>\<open>if_false\<close>: \<^verbatim>\<open>field\<close> for a string, the entries of a mapping that has no key
  \<^verbatim>\<open>condition\<close>, the attributes of a node.
\<close>

theorem condition_single_selection:
  assumes t: "(\<exists>s. if_true = VStr s \<and> t = [(''field'', VStr s)]) \<or> if_true = VDict t \<or>
              (\<exists>cls kw. if_true = VNode cls kw \<and> node_to_dict if_true = Inr t)"
    and c: "c = dict_update [(''selection'', VStr name)] t"
  shows
    "(\<forall>s. if_false = VStr s \<longrightarrow>
        condition node_to_dict (VNode ''SelectionMapping'' [(name, d)]) if_true if_false []
          = Inr (VDict [(''condition'', VDict c), (''field'', VStr s)])) \<and>
     (\<forall>f. if_false = VDict f \<and> ''condition'' \<notin> keys f \<longrightarrow>
        condition node_to_dict (VNode ''SelectionMapping'' [(name, d)]) if_true if_false []
          = Inr (VDict ((''condition'', VDict c) # f))) \<and>
     (\<forall>cls kw. if_false = VNode cls kw \<longrightarrow>
        condition node_to_dict (VNode ''SelectionMapping'' [(name, d)]) if_true if_false []
          = Inr (VNode cls (AList.update ''condition'' (VDict c) kw))) \<and>
     (distinct (map fst t) \<longrightarrow> map_of c = [''selection'' \<mapsto> VStr name] ++ map_of t)"
proof -
  have ta: "true_attrs node_to_dict if_true [] = Inr t"
    using t by (auto simp: dict_update_def)
  have "distinct (map fst t) \<longrightarrow> map_of c = [''selection'' \<mapsto> VStr name] ++ map_of t"
    using map_of_dict_update [of t "[(''selection'', VStr name)]"] c by simp
  then show ?thesis
    by (simp add: condition_def ta c dict_update_def)
qed

theorem condition_single_selection_witness:
  "condition plain_to_dict
     (VNode ''SelectionMapping'' [(''brush'', VNode ''SelectionDef'' [(''type'', VStr ''interval'')])])
     (VDict [(''field'', VStr ''a'')]) (VDict [(''value'', VStr ''grey'')]) []
     = Inr (VDict [(''condition'', VDict [(''selection'', VStr ''brush''), (''field'', VStr ''a'')]),
                   (''value'', VStr ''grey'')]) \<and>
   condition plain_to_dict
     (VNode ''SelectionMapping'' [(''brush'', VNode ''SelectionDef'' [(''type'', VStr ''interval'')])])
     (VNode ''ColorValue'' [(''value'', VStr ''red''), (''condition'', Undefined)])
     (VNode ''ColorValue'' [(''value'', VStr ''grey''), (''condition'', Undefined)]) []
     = Inr (VNode ''ColorValue''
              [(''value'', VStr ''grey''),
               (''condition'', VDict [(''selection'', VStr ''brush''), (''value'', VStr ''red'')])])"
proof -
  note a = condition_single_selection
      [where if_true = "VDict [(''field'', VStr ''a'')]" and t = "[(''field'', VStr ''a'')]"
         and name = "''brush''" and d = "VNode ''SelectionDef'' [(''type'', VStr ''interval'')]"
         and c = "[(''selection'', VStr ''brush''), (''field'', VStr ''a'')]"
         and node_to_dict = plain_to_dict and if_false = "VDict [(''value'', VStr ''grey'')]"]
  note b = condition_single_selection
      [where if_true = "VNode ''ColorValue'' [(''value'', VStr ''red''), (''condition'', Undefined)]"
         and t = "[(''value'', VStr ''red'')]"
         and name = "''brush''" and d = "VNode ''SelectionDef'' [(''type'', VStr ''interval'')]"
         and c = "[(''selection'', VStr ''brush''), (''value'', VStr ''red'')]"
         and node_to_dict = plain_to_dict
         and if_false = "VNode ''ColorValue'' [(''value'', VStr ''grey''), (''condition'', Undefined)]"]
  have "condition plain_to_dict
     (VNode ''SelectionMapping'' [(''brush'', VNode ''SelectionDef'' [(''type'', VStr ''interval'')])])
     (VDict [(''field'', VStr ''a'')]) (VDict [(''value'', VStr ''grey'')]) []
     = Inr (VDict [(''condition'', VDict [(''selection'', VStr ''brush''), (''field'', VStr ''a'')]),
                   (''value'', VStr ''grey'')])"
    using a by (simp add: dict_update_def keys_def)
  moreover have "condition plain_to_dict
     (VNode ''SelectionMapping'' [(''brush'', VNode ''SelectionDef'' [(''type'', VStr ''interval'')])])
     (VNode ''ColorValue'' [(''value'', VStr ''red''), (''condition'', Undefined)])
     (VNode ''ColorValue'' [(''value'', VStr ''grey''), (''condition'', Undefined)]) []
     = Inr (VNode ''ColorValue''
              [(''value'', VStr ''grey''),
               (''condition'', VDict [(''selection'', VStr ''brush''), (''value'', VStr ''red'')])])"
    using b by (simp add: dict_update_def plain_to_dict_def)
  ultimately show ?thesis by simp
qed


section \<open>Channel resolution\<close>

























section \<open>Serialization: data preparation and validation passes\<close>









section \<open>Serialization: default values\<close>

text \<open>
  What \<^verbatim>\<open>update_nested\<close> leaves under a key: the entry of \<open>original\<close> where \<open>update\<close> has
  none, the entry of \<open>update\<close> where it is not a mapping or where \<open>original\<close> has no mapping
  to merge it with, and the merge of the two mappings otherwise. Merging into the empty
  mapping gives the mapping back.
\<close>

lemma map_of_update_nested:
  "distinct (map fst upd) \<Longrightarrow>
   map_of (update_nested orig upd) k =
     (case map_of upd k of
        None \<Rightarrow> map_of orig k
      | Some (VDict u) \<Rightarrow>
          (case map_of orig k of
             None \<Rightarrow> Some (VDict (update_nested [] u))
           | Some (VDict od) \<Rightarrow> Some (VDict (update_nested od u))
           | Some other \<Rightarrow> Some (VDict u))
      | Some v \<Rightarrow> Some v)"
proof (induction upd arbitrary: orig)
  case Nil
  then show ?case by simp
next
  case (Cons p rest)
  obtain key v where p: "p = (key, v)" by (cases p)
  from Cons.prems have d: "distinct (map fst rest)" and n: "map_of rest key = None"
    by (auto simp: p map_of_eq_None_iff)
  note IH = Cons.IH [OF d]
  show ?case
  proof (cases "k = key")
    case True
    have p': "p = (k, v)" and n': "map_of rest k = None"
      using p n True by simp_all
    show ?thesis
      by (cases v)
         (auto simp: p' IH n' update_conv' dict_get_def
               split: option.splits val.splits)
  next
    case False
    show ?thesis
      by (cases v)
         (auto simp: p False IH update_conv' dict_get_def
               split: option.splits val.splits)
  qed
qed

lemma update_absent: "k \<notin> fst ` set al \<Longrightarrow> AList.update k v al = al @ [(k, v)]"
  by (induction al) auto

lemma distinct_keys_lookup:
  "distinct_keys (VDict d) \<Longrightarrow> map_of d k = Some v \<Longrightarrow> distinct_keys v"
  by (auto simp: list_all_iff dest!: map_of_SomeD)

lemma update_nested_fresh:
  "distinct_keys (VDict upd) \<Longrightarrow> keys upd \<inter> keys orig = {} \<Longrightarrow>
   update_nested orig upd = orig @ upd"
proof (induction orig upd rule: update_nested.induct)
  case (1 original)
  then show ?case by simp
next
  case (2 original key upd rest)
  from "2.prems" have k: "key \<notin> fst ` set original" and kr: "key \<notin> fst ` set rest"
    and du: "distinct_keys (VDict upd)" and dr: "distinct_keys (VDict rest)"
    and disj: "keys rest \<inter> keys original = {}"
    by (auto simp: keys_def)
  from k have g: "dict_get original key (VDict []) = VDict []"
  proof -
    from k have "map_of original key = None" by (simp add: map_of_eq_None_iff)
    then show ?thesis by (simp add: dict_get_def)
  qed
  have n: "update_nested [] upd = upd"
    using "2.IH"(1) [OF g du] by (simp add: keys_def)
  have "update_nested original ((key, VDict upd) # rest)
          = update_nested (original @ [(key, VDict upd)]) rest"
    using g n k by (simp add: update_absent)
  also have "\<dots> = (original @ [(key, VDict upd)]) @ rest"
    using "2.IH"(2) dr disj kr g n k by (simp add: update_absent keys_def Int_Un_distrib)
  finally show ?case by simp
qed (auto simp: update_absent keys_def Int_Un_distrib)

lemma update_nested_empty: "distinct_keys (VDict u) \<Longrightarrow> update_nested [] u = u"
  using update_nested_fresh [of u "[]"] by (simp add: keys_def)

lemma map_of_update_nested_kept:
  assumes "distinct_keys (VDict upd)" and "map_of orig k = None"
  shows "map_of (update_nested orig upd) k = map_of upd k"
proof -
  have d: "distinct (map fst upd)" using assms by simp
  show ?thesis
  proof (cases "map_of upd k")
    case None
    then show ?thesis using assms by (simp add: map_of_update_nested [OF d])
  next
    case (Some v)
    then have "distinct_keys v" using assms distinct_keys_lookup by blast
    then show ?thesis using Some assms
      by (cases v) (simp_all add: map_of_update_nested [OF d] update_nested_empty)
  qed
qed

lemma map_of_update_nested_explicit:
  assumes "distinct (map fst upd)" and "map_of upd k = Some v" and "\<forall>d. v \<noteq> VDict d"
  shows "map_of (update_nested orig upd) k = Some v"
  using assms by (cases v) (simp_all add: map_of_update_nested)

lemma map_of_update_nested_default:
  assumes "distinct (map fst upd)" and "map_of upd k = None"
  shows "map_of (update_nested orig upd) k = map_of orig k"
  using assms by (simp add: map_of_update_nested)

lemma finalize_top_level:
  assumes top: "truthy top_level" and wf: "distinct_keys (VDict dct)"
  obtains dct1 where
    "finalize top_level dct = update_nested default_spec_values dct1"
    "distinct_keys (VDict dct1)"
    "\<And>k. k \<noteq> ''$schema'' \<Longrightarrow> map_of dct1 k = map_of dct k"
proof (cases "''$schema'' \<in> keys dct")
  case True
  then have "finalize top_level dct = update_nested default_spec_values dct"
    using top by (simp add: finalize_def default_spec_values_def)
  then show ?thesis using that wf by blast
next
  case False
  let ?d = "AList.update ''$schema'' (VStr SCHEMA_URL) dct"
  have a: "?d = dct @ [(''$schema'', VStr SCHEMA_URL)]"
    using False by (simp add: update_absent keys_def)
  have 1: "finalize top_level dct = update_nested default_spec_values ?d"
    using top False by (simp add: finalize_def default_spec_values_def Let_def)
  have 2: "distinct_keys (VDict ?d)"
    using wf False unfolding a by (simp add: keys_def)
  have 3: "\<And>k. k \<noteq> ''$schema'' \<Longrightarrow> map_of ?d k = map_of dct k"
    by (simp add: update_conv')
  show ?thesis using that [OF 1 2 3] .
qed

text \<open>
  Claim C4. The default values are \<^verbatim>\<open>{config: {view: {width: 400, height: 300}}}\<close>. For
  every chart whose conversion gives the document \<open>dct\<close> (a Python dictionary: each of its
  mappings holds each key once), the top-level call of \<^verbatim>\<open>to_dict\<close> returns \<open>dct\<close>
  merged onto the default values:

  \<^item> every entry of \<open>dct\<close> other than \<^verbatim>\<open>config\<close> and \<^verbatim>\<open>$schema\<close> is kept, and no other key
    appears (an explicitly set \<^verbatim>\<open>width\<close> of 200 stays 200);

  \<^item> without a \<^verbatim>\<open>config\<close>, the document gets the whole default, view width 400 and height
    300;

  \<^item> a \<^verbatim>\<open>config\<close> or a \<^verbatim>\<open>view\<close> that is not a mapping is kept as it is; a \<^verbatim>\<open>config\<close>
    mapping keeps its entries other than \<^verbatim>\<open>view\<close> and gets the default view when it has
    none;

  \<^item> a \<^verbatim>\<open>view\<close> mapping keeps its entries: its \<^verbatim>\<open>width\<close> and \<^verbatim>\<open>height\<close> are the
    values that were set, and 400 and 300 where none was set.
\<close>

theorem to_dict_merges_defaults_underneath:
  assumes self: "self < length (objs w)"
    and prep: "prepare_data transform (length (objs w)) (ch_data (objs w ! self))
                 (w\<lparr>objs := objs w @ [objs w ! self]\<rparr>) = (Inr (), w2)"
    and conv: "base args (inner_kwargs kw (ch_data (objs w ! self))) (objs w2 ! length (objs w))
                 = Inr dct"
    and top: "truthy (is_top_level kw)"
    and wf: "distinct_keys (VDict dct)"
    and doc: "doc = finalize (is_top_level kw) dct"
  shows
    "fst (to_dict transform base self args kw w) = Inr doc \<and>
     (k \<noteq> ''config'' \<and> k \<noteq> ''$schema'' \<longrightarrow> map_of doc k = map_of dct k) \<and>
     (''config'' \<notin> keys dct \<longrightarrow>
        map_of doc ''config''
          = Some (VDict [(''view'', VDict [(''width'', VNum 400), (''height'', VNum 300)])])) \<and>
     (map_of dct ''config'' = Some v \<and> (\<forall>d. v \<noteq> VDict d) \<longrightarrow> map_of doc ''config'' = Some v) \<and>
     (map_of dct ''config'' = Some (VDict cfg) \<longrightarrow>
        (\<exists>cfg'. map_of doc ''config'' = Some (VDict cfg') \<and>
           (\<forall>ck. ck \<noteq> ''view'' \<longrightarrow> map_of cfg' ck = map_of cfg ck) \<and>
           (''view'' \<notin> keys cfg \<longrightarrow>
              map_of cfg' ''view''
                = Some (VDict [(''width'', VNum 400), (''height'', VNum 300)])) \<and>
           (map_of cfg ''view'' = Some vv \<and> (\<forall>d. vv \<noteq> VDict d) \<longrightarrow>
              map_of cfg' ''view'' = Some vv) \<and>
           (map_of cfg ''view'' = Some (VDict view) \<longrightarrow>
              (\<exists>view'. map_of cfg' ''view'' = Some (VDict view') \<and>
                 (\<forall>vk. vk \<noteq> ''width'' \<and> vk \<noteq> ''height'' \<longrightarrow>
                    map_of view' vk = map_of view vk) \<and>
                 map_of view' ''width''
                   = Some (case map_of view ''width'' of None \<Rightarrow> VNum 400 | Some x \<Rightarrow> x) \<and>
                 map_of view' ''height''
                   = Some (case map_of view ''height'' of None \<Rightarrow> VNum 300 | Some x \<Rightarrow> x)))))"
proof -
  obtain dct1 where
    f: "doc = update_nested default_spec_values dct1" and
    wf1: "distinct_keys (VDict dct1)" and
    same: "\<And>k. k \<noteq> ''$schema'' \<Longrightarrow> map_of dct1 k = map_of dct k"
    using finalize_top_level [OF top wf] doc by metis
  have d1: "distinct (map fst dct1)" using wf1 by simp
  have c: "map_of dct1 ''config'' = map_of dct ''config''" using same by simp
  have 1: "fst (to_dict transform base self args kw w) = Inr doc"
    using self prep conv doc by (simp add: to_dict_def Let_def convert_def)
  have 2: "k \<noteq> ''config'' \<and> k \<noteq> ''$schema'' \<longrightarrow> map_of doc k = map_of dct k"
    using map_of_update_nested_kept [OF wf1, of default_spec_values k] same [of k]
    by (simp add: f default_spec_values_def)
  have 3: "''config'' \<notin> keys dct \<longrightarrow>
        map_of doc ''config''
          = Some (VDict [(''view'', VDict [(''width'', VNum 400), (''height'', VNum 300)])])"
  proof
    assume "''config'' \<notin> keys dct"
    then have "map_of dct1 ''config'' = None"
      using c by (simp add: keys_def map_of_eq_None_iff)
    then show "map_of doc ''config''
          = Some (VDict [(''view'', VDict [(''width'', VNum 400), (''height'', VNum 300)])])"
      using map_of_update_nested_default [OF d1, of "''config''" default_spec_values]
      by (simp add: f default_spec_values_def)
  qed
  have 4: "map_of dct ''config'' = Some v \<and> (\<forall>d. v \<noteq> VDict d) \<longrightarrow> map_of doc ''config'' = Some v"
    using map_of_update_nested_explicit [OF d1, of "''config''" v default_spec_values] c
    by (simp add: f)
  have 5: "map_of dct ''config'' = Some (VDict cfg) \<longrightarrow>
        (\<exists>cfg'. map_of doc ''config'' = Some (VDict cfg') \<and>
           (\<forall>ck. ck \<noteq> ''view'' \<longrightarrow> map_of cfg' ck = map_of cfg ck) \<and>
           (''view'' \<notin> keys cfg \<longrightarrow>
              map_of cfg' ''view''
                = Some (VDict [(''width'', VNum 400), (''height'', VNum 300)])) \<and>
           (map_of cfg ''view'' = Some vv \<and> (\<forall>d. vv \<noteq> VDict d) \<longrightarrow>
              map_of cfg' ''view'' = Some vv) \<and>
           (map_of cfg ''view'' = Some (VDict view) \<longrightarrow>
              (\<exists>view'. map_of cfg' ''view'' = Some (VDict view') \<and>
                 (\<forall>vk. vk \<noteq> ''width'' \<and> vk \<noteq> ''height'' \<longrightarrow>
                    map_of view' vk = map_of view vk) \<and>
                 map_of view' ''width''
                   = Some (case map_of view ''width'' of None \<Rightarrow> VNum 400 | Some x \<Rightarrow> x) \<and>
                 map_of view' ''height''
                   = Some (case map_of view ''height'' of None \<Rightarrow> VNum 300 | Some x \<Rightarrow> x))))"
  proof
    assume a: "map_of dct ''config'' = Some (VDict cfg)"
    let ?dv = "[(''width'', VNum 400), (''height'', VNum 300)]"
    let ?dc = "[(''view'', VDict ?dv)]"
    let ?cfg' = "update_nested ?dc cfg"
    have "map_of dct1 ''config'' = Some (VDict cfg)" using c a by simp
    then have wc: "distinct_keys (VDict cfg)"
      using wf1 by (rule distinct_keys_lookup [rotated])
    then have dc: "distinct (map fst cfg)" by simp
    have A: "map_of doc ''config'' = Some (VDict ?cfg')"
      using c a by (simp add: f default_spec_values_def map_of_update_nested [OF d1])
    have B: "\<forall>ck. ck \<noteq> ''view'' \<longrightarrow> map_of ?cfg' ck = map_of cfg ck"
      using map_of_update_nested_kept [OF wc, of ?dc] by simp
    have C: "''view'' \<notin> keys cfg \<longrightarrow> map_of ?cfg' ''view'' = Some (VDict ?dv)"
      using map_of_update_nested_default [OF dc, of "''view''" ?dc]
      by (simp add: keys_def map_of_eq_None_iff)
    have D: "map_of cfg ''view'' = Some vv \<and> (\<forall>d. vv \<noteq> VDict d) \<longrightarrow>
              map_of ?cfg' ''view'' = Some vv"
      using map_of_update_nested_explicit [OF dc, of "''view''" vv ?dc] by simp
    have E: "map_of cfg ''view'' = Some (VDict view) \<longrightarrow>
              (\<exists>view'. map_of ?cfg' ''view'' = Some (VDict view') \<and>
                 (\<forall>vk. vk \<noteq> ''width'' \<and> vk \<noteq> ''height'' \<longrightarrow>
                    map_of view' vk = map_of view vk) \<and>
                 map_of view' ''width''
                   = Some (case map_of view ''width'' of None \<Rightarrow> VNum 400 | Some x \<Rightarrow> x) \<and>
                 map_of view' ''height''
                   = Some (case map_of view ''height'' of None \<Rightarrow> VNum 300 | Some x \<Rightarrow> x))"
    proof
      assume b: "map_of cfg ''view'' = Some (VDict view)"
      let ?view' = "update_nested ?dv view"
      have wv: "distinct_keys (VDict view)"
        using distinct_keys_lookup [OF wc b] .
      then have dv: "distinct (map fst view)" by simp
      have E1: "map_of ?cfg' ''view'' = Some (VDict ?view')"
        using b by (simp add: map_of_update_nested [OF dc])
      have E2: "\<forall>vk. vk \<noteq> ''width'' \<and> vk \<noteq> ''height'' \<longrightarrow> map_of ?view' vk = map_of view vk"
        using map_of_update_nested_kept [OF wv, of ?dv] by simp
      have E3: "map_of ?view' ''width''
                   = Some (case map_of view ''width'' of None \<Rightarrow> VNum 400 | Some x \<Rightarrow> x)"
        by (simp add: map_of_update_nested [OF dv] split: option.splits val.splits)
      have E4: "map_of ?view' ''height''
                   = Some (case map_of view ''height'' of None \<Rightarrow> VNum 300 | Some x \<Rightarrow> x)"
        by (simp add: map_of_update_nested [OF dv] split: option.splits val.splits)
      show "\<exists>view'. map_of ?cfg' ''view'' = Some (VDict view') \<and>
                 (\<forall>vk. vk \<noteq> ''width'' \<and> vk \<noteq> ''height'' \<longrightarrow>
                    map_of view' vk = map_of view vk) \<and>
                 map_of view' ''width''
                   = Some (case map_of view ''width'' of None \<Rightarrow> VNum 400 | Some x \<Rightarrow> x) \<and>
                 map_of view' ''height''
                   = Some (case map_of view ''height'' of None \<Rightarrow> VNum 300 | Some x \<Rightarrow> x)"
        using E1 E2 E3 E4 by blast
    qed
    show "\<exists>cfg'. map_of doc ''config'' = Some (VDict cfg') \<and>
           (\<forall>ck. ck \<noteq> ''view'' \<longrightarrow> map_of cfg' ck = map_of cfg ck) \<and>
           (''view'' \<notin> keys cfg \<longrightarrow>
              map_of cfg' ''view''
                = Some (VDict [(''width'', VNum 400), (''height'', VNum 300)])) \<and>
           (map_of cfg ''view'' = Some vv \<and> (\<forall>d. vv \<noteq> VDict d) \<longrightarrow>
              map_of cfg' ''view'' = Some vv) \<and>
           (map_of cfg ''view'' = Some (VDict view) \<longrightarrow>
              (\<exists>view'. map_of cfg' ''view'' = Some (VDict view') \<and>
                 (\<forall>vk. vk \<noteq> ''width'' \<and> vk \<noteq> ''height'' \<longrightarrow>
                    map_of view' vk = map_of view vk) \<and>
                 map_of view' ''width''
                   = Some (case map_of view ''width'' of None \<Rightarrow> VNum 400 | Some x \<Rightarrow> x) \<and>
                 map_of view' ''height''
                   = Some (case map_of view ''height'' of None \<Rightarrow> VNum 300 | Some x \<Rightarrow> x)))"
      using A B C D E by blast
  qed
  from 1 2 3 4 5 show ?thesis by blast
qed

theorem to_dict_merges_defaults_underneath_witness:
  "(\<exists>doc. fst (to_dict frame_to_data chart_to_document 0 []
                  \<lparr>kw_validate = None, kw_context = None, kw_rest = []\<rparr>
                  \<lparr>objs = [\<lparr>ch_cls = ''Chart'', ch_data = Data Undefined,
                             ch_attrs = [(''mark'', VStr ''point''), (''width'', VNum 200)]\<rparr>],
                   piped = [], converted = []\<rparr>) = Inr doc \<and>
          map_of doc ''width'' = Some (VNum 200) \<and>
          map_of doc ''config''
            = Some (VDict [(''view'', VDict [(''width'', VNum 400), (''height'', VNum 300)])])) \<and>
   (\<exists>doc cfg view.
          fst (to_dict frame_to_data chart_to_document 0 []
                  \<lparr>kw_validate = None, kw_context = None, kw_rest = []\<rparr>
                  \<lparr>objs = [\<lparr>ch_cls = ''Chart'', ch_data = Data Undefined,
                             ch_attrs = [(''mark'', VStr ''point''),
                                         (''config'',
                                          VDict [(''view'', VDict [(''width'', VNum 500)])])]\<rparr>],
                   piped = [], converted = []\<rparr>) = Inr doc \<and>
          map_of doc ''config'' = Some (VDict cfg) \<and>
          map_of cfg ''view'' = Some (VDict view) \<and>
          map_of view ''width'' = Some (VNum 500) \<and>
          map_of view ''height'' = Some (VNum 300))"
proof -
  let ?kw = "\<lparr>kw_validate = None, kw_context = None, kw_rest = []\<rparr>"
  let ?da = "[(''mark'', VStr ''point''), (''width'', VNum 200)]"
  let ?db = "[(''mark'', VStr ''point''),
              (''config'', VDict [(''view'', VDict [(''width'', VNum 500)])])]"
  let ?ca = "\<lparr>ch_cls = ''Chart'', ch_data = Data Undefined, ch_attrs = ?da\<rparr>"
  let ?cb = "\<lparr>ch_cls = ''Chart'', ch_data = Data Undefined, ch_attrs = ?db\<rparr>"
  let ?wa = "\<lparr>objs = [?ca], piped = [], converted = []\<rparr>"
  let ?wb = "\<lparr>objs = [?cb], piped = [], converted = []\<rparr>"
  let ?wa2 = "\<lparr>objs = [?ca, ?ca], piped = [], converted = []\<rparr>"
  let ?wb2 = "\<lparr>objs = [?cb, ?cb], piped = [], converted = []\<rparr>"
  have top: "is_top_level ?kw = VBool True"
    by (simp add: is_top_level_def caller_context_def dict_get_def)
  have a1: "0 < length (objs ?wa)" by simp
  have a2: "prepare_data frame_to_data (length (objs ?wa)) (ch_data (objs ?wa ! 0))
              (?wa\<lparr>objs := objs ?wa @ [objs ?wa ! 0]\<rparr>) = (Inr (), ?wa2)"
    by simp
  have a3: "chart_to_document [] (inner_kwargs ?kw (ch_data (objs ?wa ! 0)))
              (objs ?wa2 ! length (objs ?wa)) = Inr ?da"
    by (simp add: chart_to_document_def inner_kwargs_def keys_def)
  have a4: "truthy (is_top_level ?kw)" by (simp add: top)
  have a5: "distinct_keys (VDict ?da)" by simp
  have a6: "finalize (VBool True) ?da = finalize (is_top_level ?kw) ?da" by (simp add: top)
  note a = to_dict_merges_defaults_underneath
      [where self = 0 and w = ?wa and transform = frame_to_data and base = chart_to_document
         and args = "[]" and kw = ?kw and ?w2.0 = ?wa2 and dct = ?da
         and doc = "finalize (VBool True) ?da" and k = "''width''", OF a1 a2 a3 a4 a5 a6]
  have A1: "fst (to_dict frame_to_data chart_to_document 0 [] ?kw ?wa)
             = Inr (finalize (VBool True) ?da)"
    using a [THEN conjunct1] .
  have A2: "map_of (finalize (VBool True) ?da) ''width'' = Some (VNum 200)"
    using a [THEN conjunct2, THEN conjunct1] by simp
  have A3: "map_of (finalize (VBool True) ?da) ''config''
             = Some (VDict [(''view'', VDict [(''width'', VNum 400), (''height'', VNum 300)])])"
    using a [THEN conjunct2, THEN conjunct2, THEN conjunct1] by (simp add: keys_def)
  have b1: "0 < length (objs ?wb)" by simp
  have b2: "prepare_data frame_to_data (length (objs ?wb)) (ch_data (objs ?wb ! 0))
              (?wb\<lparr>objs := objs ?wb @ [objs ?wb ! 0]\<rparr>) = (Inr (), ?wb2)"
    by simp
  have b3: "chart_to_document [] (inner_kwargs ?kw (ch_data (objs ?wb ! 0)))
              (objs ?wb2 ! length (objs ?wb)) = Inr ?db"
    by (simp add: chart_to_document_def inner_kwargs_def keys_def)
  have b5: "distinct_keys (VDict ?db)" by simp
  have b6: "finalize (VBool True) ?db = finalize (is_top_level ?kw) ?db" by (simp add: top)
  note b = to_dict_merges_defaults_underneath
      [where self = 0 and w = ?wb and transform = frame_to_data and base = chart_to_document
         and args = "[]" and kw = ?kw and ?w2.0 = ?wb2 and dct = ?db
         and doc = "finalize (VBool True) ?db"
         and cfg = "[(''view'', VDict [(''width'', VNum 500)])]"
         and view = "[(''width'', VNum 500)]" and vv = Undefined, OF b1 b2 b3 a4 b5 b6]
  have B1: "fst (to_dict frame_to_data chart_to_document 0 [] ?kw ?wb)
             = Inr (finalize (VBool True) ?db)"
    using b [THEN conjunct1] .
  have "\<exists>cfg'. map_of (finalize (VBool True) ?db) ''config'' = Some (VDict cfg') \<and>
          (\<exists>view'. map_of cfg' ''view'' = Some (VDict view') \<and>
             map_of view' ''width'' = Some (VNum 500) \<and>
             map_of view' ''height'' = Some (VNum 300))"
    using b [THEN conjunct2, THEN conjunct2, THEN conjunct2, THEN conjunct2]
    apply simp
    apply (elim exE conjE)
    apply (intro exI conjI)
      apply assumption+
    done
  then have B2: "\<exists>cfg view. map_of (finalize (VBool True) ?db) ''config'' = Some (VDict cfg) \<and>
              map_of cfg ''view'' = Some (VDict view) \<and>
              map_of view ''width'' = Some (VNum 500) \<and>
              map_of view ''height'' = Some (VNum 300)"
    by blast
  from A1 A2 A3 have A: "\<exists>doc. fst (to_dict frame_to_data chart_to_document 0 [] ?kw ?wa) = Inr doc \<and>
          map_of doc ''width'' = Some (VNum 200) \<and>
          map_of doc ''config''
            = Some (VDict [(''view'', VDict [(''width'', VNum 400), (''height'', VNum 300)])])"
    by (intro exI [of _ "finalize (VBool True) ?da"] conjI)
  from B1 B2 have B: "\<exists>doc cfg view.
          fst (to_dict frame_to_data chart_to_document 0 [] ?kw ?wb) = Inr doc \<and>
          map_of doc ''config'' = Some (VDict cfg) \<and>
          map_of cfg ''view'' = Some (VDict view) \<and>
          map_of view ''width'' = Some (VNum 500) \<and>
          map_of view ''height'' = Some (VNum 300)"
    apply (elim exE conjE)
    apply (rule exI [of _ "finalize (VBool True) ?db"])
    apply (intro exI conjI)
        apply assumption+
    done
  from A B show ?thesis by (rule conjI)
qed

end
